theory Spec2Isabelle
  imports Complex_Main "HOL-Library.Sublist"
begin

section \<open>Values of the JSON payload\<close>

text \<open>
  The request body is parsed JSON, so a Python value reaching the validators is one of
  None, a bool, an int, a float, a str, a list or a dict with string keys. A float is
  either a finite number (kept as an exact rational: the code only compares floats with
  constants, and Python compares int and float by their exact values), or one of the
  three special values the JSON parser of Python accepts.
\<close>

datatype pyfloat = Fin rat | PosInf | NegInf | NaN

datatype pyval =
    PNone
  | PBool bool
  | PInt int
  | PFloat pyfloat
  | PStr string
  | PList "pyval list"
  | PDict "(string \<times> pyval) list"

text \<open>A dict is read through its lookup function: \<open>m k = None\<close> means the key is absent.\<close>

type_synonym metric = "string \<rightharpoonup> pyval"

datatype pyexc =
    TypeError string
  | KeyError string
  | AttributeError string
  | StoreError string
  | BatchError string

text \<open>\<open>str(e)\<close> of an exception: a KeyError prints the repr of its key.\<close>

definition quoted :: "string \<Rightarrow> string" where
  "quoted s = [CHR 0x27] @ s @ [CHR 0x27]"

fun str_exc :: "pyexc \<Rightarrow> string" where
  "str_exc (TypeError s) = s"
| "str_exc (KeyError k) = quoted k"
| "str_exc (AttributeError s) = s"
| "str_exc (StoreError s) = s"
| "str_exc (BatchError s) = s"

subsection \<open>Decimal rendering of integers, as an f-string does\<close>

definition digit :: "nat \<Rightarrow> char" where
  "digit d = ''0123456789'' ! (d mod 10)"

fun str_nat :: "nat \<Rightarrow> string" where
  "str_nat n = (if n < 10 then [digit n] else str_nat (n div 10) @ [digit n])"

declare str_nat.simps [simp del]

definition str_int :: "int \<Rightarrow> string" where
  "str_int i = (if i < 0 then CHR ''-'' # str_nat (nat (- i)) else str_nat (nat i))"

subsection \<open>Python's view of a value\<close>

fun type_name :: "pyval \<Rightarrow> string" where
  "type_name PNone = ''NoneType''"
| "type_name (PBool _) = ''bool''"
| "type_name (PInt _) = ''int''"
| "type_name (PFloat _) = ''float''"
| "type_name (PStr _) = ''str''"
| "type_name (PList _) = ''list''"
| "type_name (PDict _) = ''dict''"

text \<open>\<open>isinstance(v, int)\<close>: bool is a subclass of int, with values 0 and 1.\<close>

fun int_val :: "pyval \<Rightarrow> int option" where
  "int_val (PInt n) = Some n"
| "int_val (PBool b) = Some (if b then 1 else 0)"
| "int_val _ = None"

text \<open>\<open>isinstance(v, (int, float))\<close>, with the number the comparisons see.\<close>

fun num_val :: "pyval \<Rightarrow> pyfloat option" where
  "num_val (PInt n) = Some (Fin (of_int n))"
| "num_val (PBool b) = Some (Fin (if b then 1 else 0))"
| "num_val (PFloat x) = Some x"
| "num_val _ = None"

text \<open>\<open>isinstance(v, bool)\<close>.\<close>

fun is_bool :: "pyval \<Rightarrow> bool" where
  "is_bool (PBool _) = True"
| "is_bool _ = False"

text \<open>\<open>a <= b\<close> and \<open>a < b\<close> on numbers: every comparison with NaN is false.\<close>

fun fl_le :: "pyfloat \<Rightarrow> pyfloat \<Rightarrow> bool" where
  "fl_le NaN _ = False"
| "fl_le _ NaN = False"
| "fl_le NegInf _ = True"
| "fl_le _ PosInf = True"
| "fl_le (Fin a) (Fin b) = (a \<le> b)"
| "fl_le _ _ = False"

fun fl_lt :: "pyfloat \<Rightarrow> pyfloat \<Rightarrow> bool" where
  "fl_lt NaN _ = False"
| "fl_lt _ NaN = False"
| "fl_lt PosInf _ = False"
| "fl_lt _ NegInf = False"
| "fl_lt (Fin a) (Fin b) = (a < b)"
| "fl_lt _ _ = True"

text \<open>Truth value of a value, as \<open>not v\<close> tests it.\<close>

fun truthy :: "pyval \<Rightarrow> bool" where
  "truthy PNone = False"
| "truthy (PBool b) = b"
| "truthy (PInt n) = (n \<noteq> 0)"
| "truthy (PFloat x) = (x \<noteq> Fin 0)"
| "truthy (PStr s) = (s \<noteq> [])"
| "truthy (PList xs) = (xs \<noteq> [])"
| "truthy (PDict d) = (d \<noteq> [])"

text \<open>\<open>not metric.get(k)\<close>: an absent key reads as None.\<close>

definition falsy_get :: "metric \<Rightarrow> string \<Rightarrow> bool" where
  "falsy_get m k = (case m k of None \<Rightarrow> True | Some v \<Rightarrow> \<not> truthy v)"

section \<open>Field validator (validators.py, validate\_metric)\<close>

definition rec_msg :: "int \<Rightarrow> string \<Rightarrow> string" where
  "rec_msg i s = ''Record '' @ str_int i @ '': '' @ s"

text \<open>
  The timestamp test \<open>timestamp is None or timestamp <= 0\<close>. The comparison has no type
  test before it: on a str, a list or a dict it raises TypeError.
\<close>

definition check_timestamp :: "metric \<Rightarrow> int \<Rightarrow> pyexc + string list" where
  "check_timestamp m i =
     (case m ''timestamp'' of
        None \<Rightarrow> Inr [rec_msg i ''invalid timestamp (must be positive)'']
      | Some PNone \<Rightarrow> Inr [rec_msg i ''invalid timestamp (must be positive)'']
      | Some v \<Rightarrow>
          (case num_val v of
             None \<Rightarrow> Inl (TypeError (quoted ''<='' @ '' not supported between instances of ''
                                     @ quoted (type_name v) @ '' and '' @ quoted ''int''))
           | Some x \<Rightarrow>
               if fl_le x (Fin 0) then Inr [rec_msg i ''invalid timestamp (must be positive)'']
               else Inr []))"

text \<open>
  The blocks of the optional fields all have one of four shapes; \<open>what\<close> is the text of the
  range message after the field name.
  \<^item> numeric, inside \<open>[lo, hi]\<close>: \<open>not (lo <= v <= hi)\<close>;
  \<^item> numeric, not negative: \<open>v < 0\<close>;
  \<^item> integer, inside \<open>[lo, hi]\<close>;
  \<^item> integer, not negative.
\<close>

definition num_range :: "metric \<Rightarrow> int \<Rightarrow> string \<Rightarrow> rat \<Rightarrow> rat \<Rightarrow> string \<Rightarrow> string list" where
  "num_range m i f lo hi what =
     (case m f of
        None \<Rightarrow> []
      | Some PNone \<Rightarrow> []
      | Some v \<Rightarrow>
          (case num_val v of
             None \<Rightarrow> [rec_msg i (f @ '' must be numeric'')]
           | Some x \<Rightarrow>
               if \<not> (fl_le (Fin lo) x \<and> fl_le x (Fin hi)) then [rec_msg i (f @ what)]
               else []))"

definition num_nonneg :: "metric \<Rightarrow> int \<Rightarrow> string \<Rightarrow> string list" where
  "num_nonneg m i f =
     (case m f of
        None \<Rightarrow> []
      | Some PNone \<Rightarrow> []
      | Some v \<Rightarrow>
          (case num_val v of
             None \<Rightarrow> [rec_msg i (f @ '' must be numeric'')]
           | Some x \<Rightarrow>
               if fl_lt x (Fin 0) then [rec_msg i (f @ '' cannot be negative'')]
               else []))"

definition int_range :: "metric \<Rightarrow> int \<Rightarrow> string \<Rightarrow> int \<Rightarrow> int \<Rightarrow> string \<Rightarrow> string list" where
  "int_range m i f lo hi what =
     (case m f of
        None \<Rightarrow> []
      | Some PNone \<Rightarrow> []
      | Some v \<Rightarrow>
          (case int_val v of
             None \<Rightarrow> [rec_msg i (f @ '' must be integer'')]
           | Some n \<Rightarrow>
               if \<not> (lo \<le> n \<and> n \<le> hi) then [rec_msg i (f @ what)]
               else []))"

definition int_nonneg :: "metric \<Rightarrow> int \<Rightarrow> string \<Rightarrow> string list" where
  "int_nonneg m i f =
     (case m f of
        None \<Rightarrow> []
      | Some PNone \<Rightarrow> []
      | Some v \<Rightarrow>
          (case int_val v of
             None \<Rightarrow> [rec_msg i (f @ '' must be integer'')]
           | Some n \<Rightarrow>
               if n < 0 then [rec_msg i (f @ '' cannot be negative'')]
               else []))"

text \<open>The isWearing block tests only the presence of the key, not the value against None.\<close>

definition check_wearing :: "metric \<Rightarrow> int \<Rightarrow> string list" where
  "check_wearing m i =
     (case m ''isWearing'' of
        None \<Rightarrow> []
      | Some v \<Rightarrow> if \<not> is_bool v then [rec_msg i ''isWearing must be boolean''] else [])"

text \<open>
  The validator: the two identifier tests, the timestamp test (which may raise, and then
  the list built so far is lost), the hash test, then the sixteen optional blocks in the
  order of the source.
\<close>

definition optional_checks :: "metric \<Rightarrow> int \<Rightarrow> string list" where
  "optional_checks m i =
     num_range m i ''heartRate'' 30 220 '' out of range (30-220 bpm)''
   @ num_range m i ''bpSystolic'' 60 280 '' out of range (60-280 mmHg)''
   @ num_range m i ''bpDiastolic'' 30 150 '' out of range (30-150 mmHg)''
   @ num_range m i ''spO2'' 70 100 '' out of range (70-100%)''
   @ num_range m i ''temperature'' 35 41
       ('' out of range (35.0-41.0'' @ [CHR 0xC2, CHR 0xB0] @ ''C)'')
   @ num_range m i ''bloodGlucose'' 50 500 '' out of range (50-500)''
   @ int_nonneg m i ''steps''
   @ num_nonneg m i ''calories''
   @ num_nonneg m i ''distance''
   @ int_range m i ''totalSleep'' 0 1440 '' out of range (0-1440 minutes)''
   @ int_range m i ''deepSleep'' 0 1440 '' out of range (0-1440 minutes)''
   @ int_range m i ''lightSleep'' 0 1440 '' out of range (0-1440 minutes)''
   @ int_range m i ''stress'' 0 100 '' out of range (0-100)''
   @ num_range m i ''met'' 0 20 '' out of range (0.0-20.0)''
   @ int_range m i ''mai'' 0 100 '' out of range (0-100)''
   @ check_wearing m i"

definition validate_metric :: "metric \<Rightarrow> int \<Rightarrow> pyexc + string list" where
  "validate_metric m i =
     (let e1 = (if falsy_get m ''userId'' then [rec_msg i ''userId is required''] else []);
          e2 = (if falsy_get m ''deviceId'' then [rec_msg i ''deviceId is required''] else [])
      in case check_timestamp m i of
           Inl ex \<Rightarrow> Inl ex
         | Inr e3 \<Rightarrow>
             Inr (e1 @ e2 @ e3
                  @ (if falsy_get m ''recordHash''
                     then [rec_msg i ''recordHash is required for deduplication''] else [])
                  @ optional_checks m i))"

text \<open>The optional fields of the typed-range table, in the order of their blocks.\<close>

definition optional_fields :: "string list" where
  "optional_fields =
     [''heartRate'', ''bpSystolic'', ''bpDiastolic'', ''spO2'', ''temperature'',
      ''bloodGlucose'', ''steps'', ''calories'', ''distance'', ''totalSleep'', ''deepSleep'',
      ''lightSleep'', ''stress'', ''met'', ''mai'', ''isWearing'']"

section \<open>Batch validator (validators.py, validate\_batch)\<close>

text \<open>
  The loop over \<open>enumerate(metrics)\<close>, with \<open>all_errors\<close> as accumulator. An element that
  is not a dict adds its message and the loop goes on (\<open>continue\<close>).
\<close>

fun validate_loop :: "nat \<Rightarrow> pyval list \<Rightarrow> string list \<Rightarrow> pyexc + string list" where
  "validate_loop i [] all_errors = Inr all_errors"
| "validate_loop i (PDict d # xs) all_errors =
     (case validate_metric (map_of d) (int i) of
        Inl ex \<Rightarrow> Inl ex
      | Inr errors \<Rightarrow> validate_loop (Suc i) xs (all_errors @ errors))"
| "validate_loop i (x # xs) all_errors =
     validate_loop (Suc i) xs (all_errors @ [rec_msg (int i) ''must be a JSON object''])"

definition validate_batch :: "pyval \<Rightarrow> pyexc + (bool \<times> string list)" where
  "validate_batch metrics =
     (case metrics of
        PList ms \<Rightarrow>
          if length ms = 0 then Inr (False, [''metrics array cannot be empty''])
          else if length ms > 500 then
            Inr (False, [''batch size '' @ str_nat (length ms) @ '' exceeds maximum of 500''])
          else (case validate_loop 0 ms [] of
                  Inl ex \<Rightarrow> Inl ex
                | Inr all_errors \<Rightarrow> Inr (length all_errors = 0, all_errors))
      | _ \<Rightarrow> Inr (False, [''metrics must be an array'']))"

section \<open>The store (models.py and the MERGE statement of main.py)\<close>

text \<open>
  A timestamp of the store, as a number of microseconds since the epoch. The columns that
  the \<open>UPDATE SET\<close> branch of the MERGE statement writes, in its order, are kept apart
  from the four columns of the \<open>ON\<close> clause.
\<close>

type_synonym datetime = int

record columns =
  heart_rate :: pyval
  bp_systolic :: pyval
  bp_diastolic :: pyval
  spo2 :: pyval
  steps :: pyval
  calories :: pyval
  distance :: pyval
  temperature :: pyval
  blood_glucose :: pyval
  total_sleep :: pyval
  deep_sleep :: pyval
  light_sleep :: pyval
  stress :: pyval
  met :: pyval
  mai :: pyval
  is_wearing :: pyval

text \<open>The \<open>HealthMetric\<close> object, which is also the parameter dictionary of the statement.\<close>

record health_metric =
  user_id :: pyval
  device_id :: pyval
  timestamp :: datetime
  record_hash :: pyval
  cols :: columns

text \<open>A row of \<open>health_data\<close>: the surrogate id and \<open>CreatedAt\<close> are assigned by the store.\<close>

record row =
  row_id :: nat
  created_at :: datetime
  data :: health_metric

record store =
  rows :: "row list"
  next_id :: nat

text \<open>SQL equality: a comparison with NULL is never true.\<close>

definition sql_eq :: "pyval \<Rightarrow> pyval \<Rightarrow> bool" where
  "sql_eq a b \<longleftrightarrow> a \<noteq> PNone \<and> b \<noteq> PNone \<and> a = b"

text \<open>The \<open>ON\<close> clause of the MERGE statement.\<close>

definition matches :: "health_metric \<Rightarrow> row \<Rightarrow> bool" where
  "matches p r \<longleftrightarrow>
     sql_eq (user_id (data r)) (user_id p) \<and> sql_eq (device_id (data r)) (device_id p)
     \<and> timestamp (data r) = timestamp p \<and> sql_eq (record_hash (data r)) (record_hash p)"

text \<open>
  The MERGE statement, at server time \<open>t\<close>: a matched row gets the sixteen columns of the
  \<open>UPDATE SET\<close> branch; with no matched row a row is inserted, with the next surrogate id
  and the server time as \<open>CreatedAt\<close>.
\<close>

definition merge :: "datetime \<Rightarrow> health_metric \<Rightarrow> store \<Rightarrow> store" where
  "merge t p st =
     (if \<exists>r\<in>set (rows st). matches p r
      then st\<lparr>rows := map (\<lambda>r. if matches p r then r\<lparr>data := (data r)\<lparr>cols := cols p\<rparr>\<rparr> else r)
                         (rows st)\<rparr>
      else st\<lparr>rows := rows st @ [\<lparr>row_id = next_id st, created_at = t, data = p\<rparr>],
              next_id := Suc (next_id st)\<rparr>)"

text \<open>
  What the code does not decide is a parameter: the library call
  \<open>datetime.utcfromtimestamp(v / 1000.0)\<close>, the errors that the store raises from
  \<open>session.execute\<close> (by the state of the table and the parameters), from
  \<open>session.commit\<close>, from \<open>session.rollback\<close> and from \<open>create_session\<close>, the server
  time of the write, the two readings of the clock of the request handler, and the text of
  the TypeError that the interpreter raises when a string is indexed with a string (it
  differs between versions of the interpreter).
\<close>

record environment =
  utcfromtimestamp :: "pyval \<Rightarrow> pyexc + datetime"
  execute_error :: "store \<Rightarrow> health_metric \<Rightarrow> string option"
  commit_error :: "string option"
  rollback_error :: "string option"
  session_error :: "string option"
  getutcdate :: datetime
  auto_id :: string
  duration_ms :: int
  str_index_text :: string

section \<open>Upsert engine (main.py, insert\_or\_update\_metrics)\<close>

text \<open>\<open>metric.get(k)\<close> and \<open>metric.get('isWearing', True)\<close>.\<close>

definition get :: "metric \<Rightarrow> string \<Rightarrow> pyval" where
  "get m k = (case m k of None \<Rightarrow> PNone | Some v \<Rightarrow> v)"

definition get_default :: "metric \<Rightarrow> string \<Rightarrow> pyval \<Rightarrow> pyval" where
  "get_default m k d = (case m k of None \<Rightarrow> d | Some v \<Rightarrow> v)"

text \<open>Building the \<open>HealthMetric\<close>: \<open>metric['timestamp']\<close> raises KeyError on a missing key.\<close>

definition to_health_metric :: "environment \<Rightarrow> metric \<Rightarrow> pyexc + health_metric" where
  "to_health_metric env m =
     (case m ''timestamp'' of
        None \<Rightarrow> Inl (KeyError ''timestamp'')
      | Some v \<Rightarrow>
          (case utcfromtimestamp env v of
             Inl ex \<Rightarrow> Inl ex
           | Inr ts \<Rightarrow>
               Inr \<lparr>user_id = get m ''userId'',
                    device_id = get m ''deviceId'',
                    timestamp = ts,
                    record_hash = get m ''recordHash'',
                    cols = \<lparr>heart_rate = get m ''heartRate'',
                            bp_systolic = get m ''bpSystolic'',
                            bp_diastolic = get m ''bpDiastolic'',
                            spo2 = get m ''spO2'',
                            steps = get m ''steps'',
                            calories = get m ''calories'',
                            distance = get m ''distance'',
                            temperature = get m ''temperature'',
                            blood_glucose = get m ''bloodGlucose'',
                            total_sleep = get m ''totalSleep'',
                            deep_sleep = get m ''deepSleep'',
                            light_sleep = get m ''lightSleep'',
                            stress = get m ''stress'',
                            met = get m ''met'',
                            mai = get m ''mai'',
                            is_wearing = get_default m ''isWearing'' (PBool True)\<rparr>\<rparr>))"

text \<open>\<open>metric['timestamp']\<close> on an element that is not a dict.\<close>

fun subscript_error :: "environment \<Rightarrow> pyval \<Rightarrow> pyexc" where
  "subscript_error env (PStr _) = TypeError (str_index_text env)"
| "subscript_error env (PList _) =
     TypeError ''list indices must be integers or slices, not str''"
| "subscript_error env v = TypeError (quoted (type_name v) @ '' object is not subscriptable'')"

text \<open>
  The body of the inner \<open>try\<close> for one element, on the uncommitted state of the table: the
  new state, or the exception that the inner \<open>except\<close> catches.
\<close>

definition process_record :: "environment \<Rightarrow> store \<Rightarrow> pyval \<Rightarrow> pyexc + store" where
  "process_record env st x =
     (case x of
        PDict d \<Rightarrow>
          (case to_health_metric env (map_of d) of
             Inl ex \<Rightarrow> Inl ex
           | Inr p \<Rightarrow>
               (case execute_error env st p of
                  Some msg \<Rightarrow> Inl (StoreError msg)
                | None \<Rightarrow> Inr (merge (getutcdate env) p st)))
      | _ \<Rightarrow> Inl (subscript_error env x))"

record progress =
  inserted_count :: nat
  failed_count :: nat
  errors :: "string list"
  pending :: store

definition start :: "store \<Rightarrow> progress" where
  "start st = \<lparr>inserted_count = 0, failed_count = 0, errors = [], pending = st\<rparr>"

text \<open>One turn of the loop: the inner \<open>try\<close> and its \<open>except\<close>.\<close>

definition step :: "environment \<Rightarrow> nat \<Rightarrow> pyval \<Rightarrow> progress \<Rightarrow> progress" where
  "step env i x a =
     (case process_record env (pending a) x of
        Inr st' \<Rightarrow> a\<lparr>inserted_count := inserted_count a + 1, pending := st'\<rparr>
      | Inl ex \<Rightarrow> a\<lparr>failed_count := failed_count a + 1,
                    errors := errors a @ [rec_msg (int i) (str_exc ex)]\<rparr>)"

fun metrics_loop :: "environment \<Rightarrow> nat \<Rightarrow> pyval list \<Rightarrow> progress \<Rightarrow> progress" where
  "metrics_loop env i [] a = a"
| "metrics_loop env i (x # xs) a = metrics_loop env (Suc i) xs (step env i x a)"

record result =
  success :: bool
  inserted :: nat
  failed :: nat
  res_errors :: "string list"

text \<open>
  The engine returns the result or raises, and leaves the committed state of the table:
  after a commit that fails the transaction is rolled back, and when the rollback fails
  too its exception is the one that leaves the function, the transaction ending with the
  session.
\<close>

definition insert_or_update_metrics ::
  "environment \<Rightarrow> store \<Rightarrow> pyval list \<Rightarrow> (pyexc + result) \<times> store" where
  "insert_or_update_metrics env st metrics =
     (let a = metrics_loop env 0 metrics (start st)
      in case commit_error env of
           None \<Rightarrow>
             (Inr \<lparr>success = (failed_count a = 0), inserted = inserted_count a,
                   failed = failed_count a, res_errors = take 5 (errors a)\<rparr>,
              pending a)
         | Some msg \<Rightarrow>
             (case rollback_error env of
                None \<Rightarrow> (Inl (BatchError (''Batch insert failed: '' @ msg)), st)
              | Some rmsg \<Rightarrow> (Inl (StoreError rmsg), st)))"

section \<open>Batch coordinator (main.py, uploadHealthMetrics)\<close>

record request =
  http_method :: string
  json_body :: "pyexc + pyval"

record response =
  body :: pyval
  status :: nat
  headers :: "(string \<times> string) list"

definition json_response :: "(string \<times> pyval) list \<Rightarrow> nat \<Rightarrow> response" where
  "json_response b code = \<lparr>body = PDict b, status = code, headers = []\<rparr>"

text \<open>\<open>len(metrics)\<close> in the log line: it raises on a value without length.\<close>

fun py_len :: "pyval \<Rightarrow> pyexc + nat" where
  "py_len (PList xs) = Inr (length xs)"
| "py_len (PStr s) = Inr (length s)"
| "py_len (PDict d) = Inr (length d)"
| "py_len v = Inl (TypeError (''object of type '' @ quoted (type_name v) @ '' has no len()''))"

text \<open>The handler of the outermost \<open>except\<close>, and the one around the database stage.\<close>

definition unexpected_error :: "pyexc \<Rightarrow> pyval \<Rightarrow> response" where
  "unexpected_error ex correlation_id =
     json_response [(''error'', PStr ''Internal server error''),
                    (''message'', PStr (str_exc ex)),
                    (''correlationId'', correlation_id)] 500"

definition database_error :: "pyexc \<Rightarrow> response" where
  "database_error ex =
     json_response [(''error'', PStr ''Database insertion failed''),
                    (''message'', PStr (str_exc ex))] 500"

text \<open>Stage 3: \<open>create_session\<close>, then the engine.\<close>

definition database_stage ::
  "environment \<Rightarrow> store \<Rightarrow> pyval list \<Rightarrow> (pyexc + result) \<times> store" where
  "database_stage env st metrics =
     (case session_error env of
        Some msg \<Rightarrow> (Inl (StoreError msg), st)
      | None \<Rightarrow> insert_or_update_metrics env st metrics)"

text \<open>Stages 4 and 5: the response body and the status code.\<close>

definition status_code :: "result \<Rightarrow> nat" where
  "status_code r = (if success r then 200 else if inserted r > 0 then 207 else 500)"

definition success_response :: "environment \<Rightarrow> pyval \<Rightarrow> result \<Rightarrow> response" where
  "success_response env correlation_id r =
     json_response
       ([(''success'', PBool (success r)),
         (''syncedCount'', PInt (int (inserted r))),
         (''failedCount'', PInt (int (failed r))),
         (''durationMs'', PInt (duration_ms env)),
         (''correlationId'', correlation_id)]
        @ (if res_errors r \<noteq> [] then [(''errors'', PList (map PStr (res_errors r)))] else []))
       (status_code r)"

definition uploadHealthMetrics :: "environment \<Rightarrow> store \<Rightarrow> request \<Rightarrow> response \<times> store" where
  "uploadHealthMetrics env st req =
     (if http_method req = ''OPTIONS'' then
        (\<lparr>body = PStr [], status = 204,
          headers = [(''Access-Control-Allow-Origin'', ''*''),
                     (''Access-Control-Allow-Methods'', ''POST, OPTIONS''),
                     (''Access-Control-Allow-Headers'',
                      ''Content-Type, X-Correlation-ID, X-App-Version''),
                     (''Access-Control-Max-Age'', ''3600'')]\<rparr>, st)
      else case json_body req of
        Inl ex \<Rightarrow> (json_response [(''error'', PStr ''Invalid JSON format'')] 400, st)
      | Inr json_data \<Rightarrow>
          if \<not> truthy json_data then
            (json_response [(''error'', PStr ''Invalid request: empty body'')] 400, st)
          else case json_data of
            PDict d \<Rightarrow>
              (let metrics = get_default (map_of d) ''metrics'' (PList []);
                   correlation_id = get_default (map_of d) ''correlationId'' (PStr (auto_id env))
               in case py_len metrics of
                    Inl ex \<Rightarrow> (unexpected_error ex correlation_id, st)
                  | Inr n \<Rightarrow>
                      (case validate_batch metrics of
                         Inl ex \<Rightarrow> (unexpected_error ex correlation_id, st)
                       | Inr (is_valid, validation_errors) \<Rightarrow>
                           if \<not> is_valid then
                             (json_response
                                [(''error'', PStr ''Validation failed''),
                                 (''details'', PList (map PStr (take 10 validation_errors)))]
                                400, st)
                           else
                             (case metrics of
                                PList ms \<Rightarrow>
                                  (case database_stage env st ms of
                                     (Inl ex, st') \<Rightarrow> (database_error ex, st')
                                   | (Inr r, st') \<Rightarrow> (success_response env correlation_id r, st'))
                              | _ \<Rightarrow> (unexpected_error (TypeError []) correlation_id, st))))
          | _ \<Rightarrow>
              (unexpected_error
                 (AttributeError (quoted (type_name json_data)
                                  @ '' object has no attribute '' @ quoted ''get''))
                 PNone, st))"

section \<open>Vocabulary of the properties\<close>

text \<open>The record of the end-to-end scenario of the specification, a valid one.\<close>

definition valid_rec :: "(string \<times> pyval) list" where
  "valid_rec = [(''userId'', PStr ''u1''), (''deviceId'', PStr ''d1''),
     (''timestamp'', PInt 1704067200000), (''heartRate'', PInt 72), (''recordHash'', PStr ''h1'')]"

fun is_dict :: "pyval \<Rightarrow> bool" where
  "is_dict (PDict _) = True"
| "is_dict _ = False"

fun is_list :: "pyval \<Rightarrow> bool" where
  "is_list (PList _) = True"
| "is_list _ = False"

text \<open>A batch is accepted when \<open>validate_batch\<close> returns, with \<open>True\<close> as first component.\<close>

definition accepted :: "pyval \<Rightarrow> bool" where
  "accepted v = (case validate_batch v of Inl _ \<Rightarrow> False | Inr (ok, _) \<Rightarrow> ok)"

text \<open>
  An environment for the examples: integer timestamps convert, the store rejects the rows
  of user \<open>u2\<close>, and nothing else fails.
\<close>

definition test_env :: environment where
  "test_env =
     \<lparr>utcfromtimestamp = (\<lambda>v. case v of PInt n \<Rightarrow> Inr (n * 1000) | _ \<Rightarrow> Inl (TypeError [])),
      execute_error = (\<lambda>st p. if user_id p = PStr ''u2'' then Some ''constraint violation'' else None),
      commit_error = None, rollback_error = None, session_error = None,
      getutcdate = 100, auto_id = ''auto-1'', duration_ms = 5,
      str_index_text = ''string indices must be integers, not '' @ quoted ''str''\<rparr>"

definition empty_store :: store where
  "empty_store = \<lparr>rows = [], next_id = 1\<rparr>"


text \<open>A POST request with the given value under \<open>metrics\<close> and correlation id \<open>c1\<close>.\<close>

definition post_request :: "pyval \<Rightarrow> request" where
  "post_request metrics =
     \<lparr>http_method = ''POST'',
      json_body = Inr (PDict [(''metrics'', metrics), (''correlationId'', PStr ''c1'')])\<rparr>"



text \<open>A violation message is about a field when it begins with the record prefix
  followed by the field's name and a space.\<close>

definition about :: "string \<Rightarrow> int \<Rightarrow> string \<Rightarrow> bool" where
  "about f i e = prefix (rec_msg i (f @ '' '')) e"

text \<open>The blocks as a table: the field each block reads, with the block as a function.\<close>

definition block_table :: "(string \<times> (metric \<Rightarrow> int \<Rightarrow> string \<Rightarrow> string list)) list" where
  "block_table =
     [(''heartRate'', \<lambda>m i f. num_range m i f 30 220 '' out of range (30-220 bpm)''),
      (''bpSystolic'', \<lambda>m i f. num_range m i f 60 280 '' out of range (60-280 mmHg)''),
      (''bpDiastolic'', \<lambda>m i f. num_range m i f 30 150 '' out of range (30-150 mmHg)''),
      (''spO2'', \<lambda>m i f. num_range m i f 70 100 '' out of range (70-100%)''),
      (''temperature'', \<lambda>m i f. num_range m i f 35 41
          ('' out of range (35.0-41.0'' @ [CHR 0xC2, CHR 0xB0] @ ''C)'')),
      (''bloodGlucose'', \<lambda>m i f. num_range m i f 50 500 '' out of range (50-500)''),
      (''steps'', int_nonneg),
      (''calories'', num_nonneg),
      (''distance'', num_nonneg),
      (''totalSleep'', \<lambda>m i f. int_range m i f 0 1440 '' out of range (0-1440 minutes)''),
      (''deepSleep'', \<lambda>m i f. int_range m i f 0 1440 '' out of range (0-1440 minutes)''),
      (''lightSleep'', \<lambda>m i f. int_range m i f 0 1440 '' out of range (0-1440 minutes)''),
      (''stress'', \<lambda>m i f. int_range m i f 0 100 '' out of range (0-100)''),
      (''met'', \<lambda>m i f. num_range m i f 0 20 '' out of range (0.0-20.0)''),
      (''mai'', \<lambda>m i f. int_range m i f 0 100 '' out of range (0-100)''),
      (''isWearing'', \<lambda>m i f. check_wearing m i)]"

text \<open>What a block of the optional checks guarantees for the field it reads: it depends
  on that field only, reports nothing when the field is absent, nothing when it is null
  (isWearing apart), and reports only messages about that field.\<close>

definition block_ok :: "string \<Rightarrow> (metric \<Rightarrow> int \<Rightarrow> string \<Rightarrow> string list) \<Rightarrow> bool" where
  "block_ok f chk \<longleftrightarrow>
     (\<forall>m m' i. m f = m' f \<longrightarrow> chk m i f = chk m' i f) \<and>
     (\<forall>m i. m f = None \<longrightarrow> chk m i f = []) \<and>
     (\<forall>m i. m f = Some PNone \<longrightarrow> f \<noteq> ''isWearing'' \<longrightarrow> chk m i f = []) \<and>
     (\<forall>m i. \<forall>e\<in>set (chk m i f). about f i e)"


text \<open>
  The violations of the elements of a batch, one list for each element, from index \<open>i\<close>: for
  a record the list that the field validator returns, for any other element the single
  violation of a non-record.
\<close>

fun element_violations :: "nat \<Rightarrow> pyval list \<Rightarrow> string list list \<Rightarrow> bool" where
  "element_violations i [] [] = True"
| "element_violations i (PDict d # xs) (v # vs) =
     (validate_metric (map_of d) (int i) = Inr v \<and> element_violations (Suc i) xs vs)"
| "element_violations i (x # xs) (v # vs) =
     (v = [rec_msg (int i) ''must be a JSON object''] \<and> element_violations (Suc i) xs vs)"
| "element_violations i _ _ = False"


section \<open>Properties of the validators\<close>

text \<open>
  Claim C2 (the field validator never raises). The code does raise: the timestamp is
  compared with 0 without a type test, so a record whose timestamp is a string makes
  \<open>timestamp <= 0\<close> raise TypeError, and the violations collected so far are lost. Every
  optional field has an isinstance test before its comparison; the timestamp has none.
\<close>

theorem validate_metric_raises_on_text_timestamp:
  "validate_metric
     (map_of [(''userId'', PStr ''u1''), (''deviceId'', PStr ''d1''),
              (''timestamp'', PStr ''abc''), (''recordHash'', PStr ''h1'')]) 0
   = Inl (TypeError (quoted ''<='' @ '' not supported between instances of ''
                     @ quoted ''str'' @ '' and '' @ quoted ''int''))"
  by (simp add: validate_metric_def check_timestamp_def)

subsection \<open>The loop of the batch validator\<close>

lemma validate_loop_prefix: "validate_loop i xs acc = Inr r \<Longrightarrow> prefix acc r"
  by (induction i xs acc arbitrary: r rule: validate_loop.induct)
     (auto split: sum.splits dest: append_prefixD)

lemma validate_loop_accept:
  "validate_loop i xs acc = Inr [] \<longleftrightarrow>
     acc = [] \<and> (\<forall>j<length xs. \<exists>d. xs ! j = PDict d \<and> validate_metric (map_of d) (int (i + j)) = Inr [])"
proof (induction i xs acc rule: validate_loop.induct)
  case (1 i all_errors)
  then show ?case by simp
next
  case (2 i d xs all_errors)
  show ?case
  proof (cases "validate_metric (map_of d) (int i)")
    case (Inl ex)
    then show ?thesis by auto
  next
    case (Inr errors)
    with 2 show ?thesis
      by (simp add: All_less_Suc2 del: length_0_conv) (auto simp: add.commute add.left_commute)
  qed
qed (auto dest!: validate_loop_prefix)

lemma validate_loop_nondict:
  "validate_loop i xs acc = Inr errs \<Longrightarrow> j < length xs \<Longrightarrow> \<not> is_dict (xs ! j) \<Longrightarrow>
   rec_msg (int (i + j)) ''must be a JSON object'' \<in> set errs"
proof (induction i xs acc arbitrary: j rule: validate_loop.induct)
  case (1 i all_errors)
  then show ?case by simp
next
  case (2 i d xs all_errors)
  then show ?case by (cases j) (auto split: sum.splits)
qed (case_tac j; auto dest!: validate_loop_prefix set_mono_prefix)+

lemma valid_rec_ok: "validate_metric (map_of valid_rec) i = Inr []"
  by (simp add: validate_metric_def valid_rec_def falsy_get_def check_timestamp_def
      optional_checks_def num_range_def num_nonneg_def int_range_def
      int_nonneg_def check_wearing_def)

lemma str_nat_501: "str_nat 501 = ''501''"
  by code_simp

lemma validate_batch_dicts:
  assumes "1 \<le> length rs" "length rs \<le> 500"
  shows "accepted (PList (map PDict rs)) \<longleftrightarrow>
         (\<forall>j<length rs. validate_metric (map_of (rs ! j)) (int j) = Inr [])"
proof -
  have "accepted (PList (map PDict rs)) \<longleftrightarrow> validate_loop 0 (map PDict rs) [] = Inr []"
    using assms by (auto simp: accepted_def validate_batch_def split: sum.splits)
  also have "\<dots> \<longleftrightarrow> (\<forall>j<length rs. validate_metric (map_of (rs ! j)) (int j) = Inr [])"
    by (simp add: validate_loop_accept)
  finally show ?thesis .
qed

text \<open>
  Claim C8. The empty list is rejected; every list of 501 elements is rejected, with the
  size message; a list of 500 records that the field validator finds without violation is
  accepted; and a list of 1 to 500 records is accepted exactly when the field validator
  returns the empty violation list for each of them (so the concatenation is empty). A
  record on which the field validator raises makes the batch neither accepted nor rejected:
  the exception leaves \<open>validate_batch\<close>.
\<close>

theorem validate_batch_acceptance:
  "\<not> accepted (PList [])
   \<and> (length ms = 501 \<longrightarrow> \<not> accepted (PList ms)
        \<and> validate_batch (PList ms) = Inr (False, [''batch size 501 exceeds maximum of 500'']))
   \<and> (length ds = 500 \<and> (\<forall>j<500. validate_metric (map_of (ds ! j)) (int j) = Inr [])
        \<longrightarrow> accepted (PList (map PDict ds)))
   \<and> (1 \<le> length rs \<and> length rs \<le> 500 \<longrightarrow>
        (accepted (PList (map PDict rs)) \<longleftrightarrow>
         (\<forall>j<length rs. validate_metric (map_of (rs ! j)) (int j) = Inr [])))"
proof (intro conjI impI)
  show "\<not> accepted (PList [])"
    by (simp add: accepted_def validate_batch_def)
next
  assume l: "length ms = 501"
  then show "\<not> accepted (PList ms)"
    by (simp add: accepted_def validate_batch_def)
  from l show "validate_batch (PList ms) = Inr (False, [''batch size 501 exceeds maximum of 500''])"
    by (simp add: validate_batch_def str_nat_501)
next
  assume a: "length ds = 500 \<and> (\<forall>j<500. validate_metric (map_of (ds ! j)) (int j) = Inr [])"
  then show "accepted (PList (map PDict ds))"
    using validate_batch_dicts[of ds] by simp
next
  assume "1 \<le> length rs \<and> length rs \<le> 500"
  then show "accepted (PList (map PDict rs)) \<longleftrightarrow>
         (\<forall>j<length rs. validate_metric (map_of (rs ! j)) (int j) = Inr [])"
    using validate_batch_dicts[of rs] by simp
qed

theorem validate_batch_acceptance_witness:
  "validate_batch (PList (replicate 501 PNone))
     = Inr (False, [''batch size 501 exceeds maximum of 500''])
   \<and> accepted (PList (map PDict (replicate 500 valid_rec)))
   \<and> accepted (PList (map PDict [valid_rec]))"
  using validate_batch_acceptance[of "replicate 501 PNone" "replicate 500 valid_rec" "[valid_rec]"]
  by (simp add: valid_rec_ok)

lemma validate_loop_concat:
  "element_violations i xs vss \<Longrightarrow> validate_loop i xs acc = Inr (acc @ concat vss)"
  by (induction i xs vss arbitrary: acc rule: element_violations.induct) auto

lemma validate_loop_elements:
  "validate_loop i xs acc = Inr r \<Longrightarrow> \<exists>vss. element_violations i xs vss \<and> r = acc @ concat vss"
proof (induction i xs acc arbitrary: r rule: validate_loop.induct)
  case (1 i all_errors)
  then show ?case by (auto intro: exI[of _ "[]"])
next
  case (2 i d xs all_errors)
  then obtain es where e: "validate_metric (map_of d) (int i) = Inr es"
    and l: "validate_loop (Suc i) xs (all_errors @ es) = Inr r"
    by (auto split: sum.splits)
  from 2(1)[OF e l] obtain vss where "element_violations (Suc i) xs vss" "r = (all_errors @ es) @ concat vss"
    by blast
  with e show ?case by (auto intro!: exI[of _ "es # vss"])
qed (force intro: exI[of _ "[rec_msg (int i) ''must be a JSON object''] # vss" for i vss])+

text \<open>
  Claim C5, as the code has it. An input that is not a list, the empty list and a list of
  more than 500 elements are each rejected at once with a single violation. An element that
  is not a record does not stop the loop: its violation "Record j: must be a JSON object" is
  added and the remaining elements are still validated. So whenever \<open>validate_batch\<close>
  returns on a list with such an element, the batch is rejected and the list returned is
  the concatenation, in the order of the batch, of the violations of every element; and on
  a list of 1 to 500 elements whose records the field validator answers, \<open>validate_batch\<close>
  returns exactly that concatenation.
\<close>

theorem validate_batch_structural_rejection:
  "(\<not> is_list v \<longrightarrow> validate_batch v = Inr (False, [''metrics must be an array'']))
   \<and> validate_batch (PList []) = Inr (False, [''metrics array cannot be empty''])
   \<and> (length ms > 500 \<longrightarrow> validate_batch (PList ms) =
        Inr (False, [''batch size '' @ str_nat (length ms) @ '' exceeds maximum of 500'']))
   \<and> (validate_batch (PList xs) = Inr (ok, errs) \<and> j < length xs \<and> length xs \<le> 500
        \<and> \<not> is_dict (xs ! j)
      \<longrightarrow> \<not> ok \<and> rec_msg (int j) ''must be a JSON object'' \<in> set errs
          \<and> (\<exists>vss. element_violations 0 xs vss \<and> errs = concat vss))
   \<and> (ys \<noteq> [] \<and> length ys \<le> 500 \<and> element_violations 0 ys wss
      \<longrightarrow> validate_batch (PList ys) = Inr (concat wss = [], concat wss))"
proof (intro conjI impI)
  assume "\<not> is_list v"
  then show "validate_batch v = Inr (False, [''metrics must be an array''])"
    by (cases v) (simp_all add: validate_batch_def)
next
  show "validate_batch (PList []) = Inr (False, [''metrics array cannot be empty''])"
    by (simp add: validate_batch_def)
next
  assume "500 < length ms"
  then show "validate_batch (PList ms) =
        Inr (False, [''batch size '' @ str_nat (length ms) @ '' exceeds maximum of 500''])"
    by (auto simp: validate_batch_def)
next
  assume a: "validate_batch (PList xs) = Inr (ok, errs) \<and> j < length xs \<and> length xs \<le> 500
        \<and> \<not> is_dict (xs ! j)"
  then have l: "validate_loop 0 xs [] = Inr errs" and ok: "ok = (length errs = 0)"
    by (auto simp: validate_batch_def split: sum.splits if_splits)
  from validate_loop_nondict[OF l, of j] a
  have m: "rec_msg (int j) ''must be a JSON object'' \<in> set errs" by simp
  then show "\<not> ok" using ok by auto
  show "rec_msg (int j) ''must be a JSON object'' \<in> set errs" by (rule m)
  show "\<exists>vss. element_violations 0 xs vss \<and> errs = concat vss"
    using validate_loop_elements[OF l] by simp
next
  assume a: "ys \<noteq> [] \<and> length ys \<le> 500 \<and> element_violations 0 ys wss"
  then have "validate_loop 0 ys [] = Inr (concat wss)"
    using validate_loop_concat[of 0 ys wss "[]"] by simp
  with a show "validate_batch (PList ys) = Inr (concat wss = [], concat wss)"
    by (simp add: validate_batch_def)
qed

lemma out_of_range_at_1:
  "validate_metric (map_of ((''heartRate'', PInt 500) # valid_rec)) 1
     = Inr [''Record 1: heartRate out of range (30-220 bpm)'']"
  by code_simp

theorem validate_batch_structural_rejection_witness:
  "validate_batch (PInt 3) = Inr (False, [''metrics must be an array''])
   \<and> validate_batch (PList (replicate 501 PNone)) =
        Inr (False, [''batch size '' @ str_nat 501 @ '' exceeds maximum of 500''])
   \<and> validate_batch (PList [PNone, PDict ((''heartRate'', PInt 500) # valid_rec), PInt 7]) =
        Inr (False, [''Record 0: must be a JSON object'',
                     ''Record 1: heartRate out of range (30-220 bpm)'',
                     ''Record 2: must be a JSON object''])"
  using validate_batch_structural_rejection[of "PInt 3" "replicate 501 PNone"
      "[PNone, PInt 7]" False
      "[''Record 0: must be a JSON object'', ''Record 1: must be a JSON object'']" 0
      "[PNone, PDict ((''heartRate'', PInt 500) # valid_rec), PInt 7]"
      "[[''Record 0: must be a JSON object''],
        [''Record 1: heartRate out of range (30-220 bpm)''],
        [''Record 2: must be a JSON object'']]"]
    out_of_range_at_1
  by (simp add: rec_msg_def str_int_def str_nat.simps digit_def)

text \<open>
  Claim C5 as stated fails: a batch whose first element is not a record is not cut short
  with a single violation. The second element is still validated, and the list returned
  has five violations.
\<close>

theorem validate_batch_non_record_no_short_circuit:
  "validate_batch (PList [PInt 1, PDict []]) =
     Inr (False, [''Record 0: must be a JSON object'', ''Record 1: userId is required'',
                  ''Record 1: deviceId is required'',
                  ''Record 1: invalid timestamp (must be positive)'',
                  ''Record 1: recordHash is required for deduplication''])"
  by code_simp

section \<open>Properties of the upsert engine\<close>

lemmas engine_defs = insert_or_update_metrics_def start_def step_def process_record_def
  to_health_metric_def merge_def matches_def sql_eq_def get_def get_default_def

lemma loop_counts:
  "inserted_count (metrics_loop env i ms a) + failed_count (metrics_loop env i ms a)
     = inserted_count a + failed_count a + length ms"
  by (induction ms arbitrary: i a) (auto simp: step_def split: sum.splits)




text \<open>
  Claim C10. Whenever the engine returns a result, the two counts add up to the number of
  records of the batch, and the success flag is true exactly when no record failed.
\<close>

theorem counts_add_up:
  "insert_or_update_metrics env st ms = (Inr r, st') \<Longrightarrow>
   inserted r + failed r = length ms \<and> (success r \<longleftrightarrow> failed r = 0)"
  using loop_counts[of env 0 ms "start st"]
  by (auto simp: insert_or_update_metrics_def Let_def start_def split: option.splits)

lemma one_record_run:
  "fst (insert_or_update_metrics test_env empty_store [PDict valid_rec])
     = Inr \<lparr>success = True, inserted = 1, failed = 0, res_errors = []\<rparr>"
  by (simp add: engine_defs test_env_def empty_store_def valid_rec_def)

theorem counts_add_up_witness:
  "fst (insert_or_update_metrics test_env empty_store [PDict valid_rec])
     = Inr \<lparr>success = True, inserted = 1, failed = 0, res_errors = []\<rparr>
   \<and> inserted \<lparr>success = True, inserted = 1, failed = 0, res_errors = []\<rparr>
     + failed \<lparr>success = True, inserted = 1, failed = 0, res_errors = []\<rparr>
     = length [PDict valid_rec]"
  using counts_add_up[of test_env empty_store "[PDict valid_rec]"
      "\<lparr>success = True, inserted = 1, failed = 0, res_errors = []\<rparr>"
      "snd (insert_or_update_metrics test_env empty_store [PDict valid_rec])"]
    one_record_run
  by (metis prod.collapse)

text \<open>
  Claim C3. When the commit fails, the engine returns no result at all (the counts and the
  messages of the loop are dropped): it raises one exception, and the table is the one
  before the batch. With a rollback that succeeds the exception is the batch-level
  "Batch insert failed: ..." one, which is no "Record i: ..." entry of a result.
\<close>

theorem commit_failure_rolls_back:
  "commit_error env = Some msg \<Longrightarrow>
   (\<exists>ex. fst (insert_or_update_metrics env st ms) = Inl ex)
   \<and> snd (insert_or_update_metrics env st ms) = st
   \<and> (rollback_error env = None \<longrightarrow>
        fst (insert_or_update_metrics env st ms)
          = Inl (BatchError (''Batch insert failed: '' @ msg)))"
  by (auto simp: insert_or_update_metrics_def Let_def split: option.splits)

theorem commit_failure_rolls_back_witness:
  "insert_or_update_metrics (test_env\<lparr>commit_error := Some ''connection lost''\<rparr>) empty_store
      [PDict valid_rec]
     = (Inl (BatchError ''Batch insert failed: connection lost''), empty_store)"
  using commit_failure_rolls_back[of "test_env\<lparr>commit_error := Some ''connection lost''\<rparr>"
      "''connection lost''" empty_store "[PDict valid_rec]"]
  by (simp add: test_env_def prod_eq_iff)



section \<open>Properties of the batch coordinator\<close>

text \<open>
  A value that \<open>validate_batch\<close> accepts is a list that is not empty, so the last branch
  of the database stage of \<open>uploadHealthMetrics\<close> above is never taken.
\<close>

lemma one_valid_batch: "validate_batch (PList [PDict valid_rec]) = Inr (True, [])"
  by (simp add: validate_batch_def valid_rec_ok)

lemma out_of_range_batch:
  "validate_batch (PList [PDict ((''heartRate'', PInt 500) # valid_rec)])
     = Inr (False, [''Record 0: heartRate out of range (30-220 bpm)''])"
  by code_simp

lemma accepted_nonempty: "validate_batch (PList ms) = Inr (True, errs) \<Longrightarrow> ms \<noteq> []"
  by (auto simp: validate_batch_def)

lemma result_counts:
  "insert_or_update_metrics env st ms = (Inr r, st') \<Longrightarrow>
   inserted r + failed r = length ms \<and> success r = (failed r = 0)"
  using loop_counts[of env 0 ms "start st"]
  by (auto simp: insert_or_update_metrics_def Let_def start_def split: option.splits)

lemma stage_counts:
  assumes "fst (database_stage env st ms) = Inr r"
  shows "inserted r + failed r = length ms \<and> success r = (failed r = 0)"
proof -
  from assms have "insert_or_update_metrics env st ms
      = (Inr r, snd (insert_or_update_metrics env st ms))"
    by (cases "insert_or_update_metrics env st ms")
       (auto simp: database_stage_def split: option.splits)
  then show ?thesis by (rule result_counts)
qed

lemma upload_validated:
  assumes "http_method req \<noteq> ''OPTIONS''" "json_body req = Inr (PDict d)" "d \<noteq> []"
    and "get_default (map_of d) ''metrics'' (PList []) = PList ms"
    and "validate_batch (PList ms) = Inr (True, errs)"
  shows "uploadHealthMetrics env st req =
     (case database_stage env st ms of
        (Inl ex, st') \<Rightarrow> (database_error ex, st')
      | (Inr r, st') \<Rightarrow>
          (success_response env
             (get_default (map_of d) ''correlationId'' (PStr (auto_id env))) r, st'))"
  using assms by (simp add: uploadHealthMetrics_def Let_def)

text \<open>
  The status codes when \<open>metrics\<close> is a list. A validation failure gives 400, with the
  first ten violations as details. For a validated batch, with the outcome of the database
  stage (the result of the engine, or the exception of the session or of the commit): the
  status is 200 exactly when a result is returned with no failed record, 207 exactly when a
  result is returned with records written and records failed, and 500 whenever no record
  was persisted.
\<close>

lemma status_codes:
  assumes "http_method req \<noteq> ''OPTIONS''" "json_body req = Inr (PDict d)" "d \<noteq> []"
    and "get_default (map_of d) ''metrics'' (PList []) = PList ms"
  shows "(validate_batch (PList ms) = Inr (False, errs) \<longrightarrow>
            uploadHealthMetrics env st req =
              (json_response [(''error'', PStr ''Validation failed''),
                              (''details'', PList (map PStr (take 10 errs)))] 400, st))
       \<and> (validate_batch (PList ms) = Inr (True, errs) \<longrightarrow>
            (let out = fst (database_stage env st ms);
                 code = status (fst (uploadHealthMetrics env st req))
             in (code = 200 \<longleftrightarrow> (\<exists>r. out = Inr r \<and> failed r = 0))
              \<and> (code = 207 \<longleftrightarrow> (\<exists>r. out = Inr r \<and> inserted r > 0 \<and> failed r > 0))
              \<and> ((\<forall>r. out = Inr r \<longrightarrow> inserted r = 0) \<longrightarrow> code = 500)))"
proof (intro conjI impI)
  assume "validate_batch (PList ms) = Inr (False, errs)"
  then show "uploadHealthMetrics env st req =
              (json_response [(''error'', PStr ''Validation failed''),
                              (''details'', PList (map PStr (take 10 errs)))] 400, st)"
    using assms by (simp add: uploadHealthMetrics_def Let_def)
next
  assume v: "validate_batch (PList ms) = Inr (True, errs)"
  note u = upload_validated[OF assms v, of env st]
  have ne: "length ms > 0" using accepted_nonempty[OF v] by simp
  obtain out st' where o: "database_stage env st ms = (out, st')" by (cases "database_stage env st ms")
  show "let out = fst (database_stage env st ms);
            code = status (fst (uploadHealthMetrics env st req))
        in (code = 200 \<longleftrightarrow> (\<exists>r. out = Inr r \<and> failed r = 0))
         \<and> (code = 207 \<longleftrightarrow> (\<exists>r. out = Inr r \<and> inserted r > 0 \<and> failed r > 0))
         \<and> ((\<forall>r. out = Inr r \<longrightarrow> inserted r = 0) \<longrightarrow> code = 500)"
  proof (cases out)
    case (Inl ex)
    with o u show ?thesis
      by (simp add: Let_def database_error_def json_response_def)
  next
    case (Inr r)
    with o have "fst (database_stage env st ms) = Inr r" by simp
    from stage_counts[OF this] ne have c: "inserted r + failed r > 0" "success r = (failed r = 0)"
      by simp_all
    from Inr o u have "status (fst (uploadHealthMetrics env st req)) = status_code r"
      by (simp add: success_response_def json_response_def)
    with Inr o c show ?thesis
      by (auto simp: Let_def status_code_def)
  qed
qed

lemma status_codes_witness:
  "status (fst (uploadHealthMetrics test_env empty_store (post_request (PList [PDict valid_rec]))))
     = 200
   \<and> uploadHealthMetrics test_env empty_store
        (post_request (PList [PDict ((''heartRate'', PInt 500) # valid_rec)]))
     = (json_response [(''error'', PStr ''Validation failed''),
                       (''details'',
                        PList [PStr ''Record 0: heartRate out of range (30-220 bpm)''])] 400,
        empty_store)"
proof -
  have r: "fst (database_stage test_env empty_store [PDict valid_rec])
            = Inr \<lparr>success = True, inserted = 1, failed = 0, res_errors = []\<rparr>"
    using one_record_run by (simp add: database_stage_def test_env_def)
  have a: "status (fst (uploadHealthMetrics test_env empty_store
             (post_request (PList [PDict valid_rec])))) = 200"
    using status_codes[of "post_request (PList [PDict valid_rec])"
        "[(''metrics'', PList [PDict valid_rec]), (''correlationId'', PStr ''c1'')]"
        "[PDict valid_rec]" "[]" test_env empty_store] one_valid_batch r
    by (simp add: post_request_def get_default_def Let_def)
  have b: "uploadHealthMetrics test_env empty_store
        (post_request (PList [PDict ((''heartRate'', PInt 500) # valid_rec)]))
     = (json_response [(''error'', PStr ''Validation failed''),
                       (''details'',
                        PList [PStr ''Record 0: heartRate out of range (30-220 bpm)''])] 400,
        empty_store)"
    using status_codes[of "post_request (PList [PDict ((''heartRate'', PInt 500) # valid_rec)])"
        "[(''metrics'', PList [PDict ((''heartRate'', PInt 500) # valid_rec)]),
          (''correlationId'', PStr ''c1'')]"
        "[PDict ((''heartRate'', PInt 500) # valid_rec)]"
        "[''Record 0: heartRate out of range (30-220 bpm)'']" test_env empty_store]
      out_of_range_batch
    by (simp add: post_request_def get_default_def)
  from a b show ?thesis by simp
qed

text \<open>
  Claim C7 (a validation failure returns 400). The code does not do so for every validation
  failure: the log line before the validation stage evaluates \<open>len(metrics)\<close>, so a
  \<open>metrics\<close> value without a length (a number, a boolean, null) raises TypeError there and
  the request is answered 500 "Internal server error", although \<open>validate_batch\<close> rejects
  that value with "metrics must be an array", as it does, with status 400, for a string or
  an object.
\<close>

theorem non_sequence_metrics_answers_500:
  "validate_batch (PInt 5) = Inr (False, [''metrics must be an array''])
   \<and> uploadHealthMetrics test_env empty_store
        \<lparr>http_method = ''POST'',
         json_body = Inr (PDict [(''metrics'', PInt 5), (''correlationId'', PStr ''c1'')])\<rparr>
     = (\<lparr>body = PDict [(''error'', PStr ''Internal server error''),
                       (''message'', PStr (''object of type '' @ quoted ''int''
                                           @ '' has no len()'')),
                       (''correlationId'', PStr ''c1'')],
         status = 500, headers = []\<rparr>, empty_store)"
  by (simp add: validate_batch_def uploadHealthMetrics_def Let_def get_default_def
      unexpected_error_def json_response_def)









section \<open>Properties of the MERGE statement\<close>

lemma matches_update [simp]:
  "matches p (r\<lparr>data := (data r)\<lparr>cols := c\<rparr>\<rparr>) = matches p r"
  by (simp add: matches_def)


















section \<open>Properties of the optional fields\<close>

lemma about_msg [simp]: "about g i (rec_msg i (g @ CHR '' '' # w))"
  by (simp add: about_def rec_msg_def)

lemma num_range_about: "\<forall>e\<in>set (num_range m i g lo hi (CHR '' '' # w)). about g i e"
proof (cases "m g")
  case None
  then show ?thesis by (simp add: num_range_def)
next
  case (Some v)
  then show ?thesis
    by (cases v; cases "num_val v") (simp_all add: num_range_def)
qed

lemma num_nonneg_about: "\<forall>e\<in>set (num_nonneg m i g). about g i e"
proof (cases "m g")
  case None
  then show ?thesis by (simp add: num_nonneg_def)
next
  case (Some v)
  then show ?thesis
    by (cases v; cases "num_val v") (simp_all add: num_nonneg_def)
qed

lemma int_range_about: "\<forall>e\<in>set (int_range m i g lo hi (CHR '' '' # w)). about g i e"
proof (cases "m g")
  case None
  then show ?thesis by (simp add: int_range_def)
next
  case (Some v)
  then show ?thesis
    by (cases v; cases "int_val v") (simp_all add: int_range_def)
qed

lemma int_nonneg_about: "\<forall>e\<in>set (int_nonneg m i g). about g i e"
proof (cases "m g")
  case None
  then show ?thesis by (simp add: int_nonneg_def)
next
  case (Some v)
  then show ?thesis
    by (cases v; cases "int_val v") (simp_all add: int_nonneg_def)
qed

lemma check_wearing_about: "\<forall>e\<in>set (check_wearing m i). about ''isWearing'' i e"
  by (cases "m ''isWearing''") (simp_all add: check_wearing_def about_def rec_msg_def)

lemma optional_checks_table:
  "optional_checks m i = concat (map (\<lambda>(f, chk). chk m i f) block_table)"
  by (simp add: optional_checks_def block_table_def)

lemma table_fields: "map fst block_table = optional_fields"
  by (simp add: block_table_def optional_fields_def)

lemma num_range_ok: "block_ok f (\<lambda>m i f. num_range m i f lo hi (CHR '' '' # w))"
  unfolding block_ok_def using num_range_about by (simp add: num_range_def)

lemma num_nonneg_ok: "block_ok f num_nonneg"
  unfolding block_ok_def using num_nonneg_about by (simp add: num_nonneg_def)

lemma int_range_ok: "block_ok f (\<lambda>m i f. int_range m i f lo hi (CHR '' '' # w))"
  unfolding block_ok_def using int_range_about by (simp add: int_range_def)

lemma int_nonneg_ok: "block_ok f int_nonneg"
  unfolding block_ok_def using int_nonneg_about by (simp add: int_nonneg_def)

lemma check_wearing_ok: "block_ok ''isWearing'' (\<lambda>m i f. check_wearing m i)"
  unfolding block_ok_def using check_wearing_about by (simp add: check_wearing_def)

lemma table_ok: "(f, chk) \<in> set block_table \<Longrightarrow> block_ok f chk"
  unfolding block_table_def
  using num_range_ok num_nonneg_ok int_range_ok int_nonneg_ok check_wearing_ok
  by auto

lemma table_cong:
  "(f, chk) \<in> set block_table \<Longrightarrow> m f = m' f \<Longrightarrow> chk m i f = chk m' i f"
  using table_ok[of f chk] unfolding block_ok_def by blast

lemma table_absent: "(f, chk) \<in> set block_table \<Longrightarrow> m f = None \<Longrightarrow> chk m i f = []"
  using table_ok[of f chk] unfolding block_ok_def by blast

lemma table_null:
  "(f, chk) \<in> set block_table \<Longrightarrow> m f = Some PNone \<Longrightarrow> f \<noteq> ''isWearing'' \<Longrightarrow>
   chk m i f = []"
  using table_ok[of f chk] unfolding block_ok_def by blast

lemma table_about: "(f, chk) \<in> set block_table \<Longrightarrow> e \<in> set (chk m i f) \<Longrightarrow> about f i e"
  using table_ok[of f chk] unfolding block_ok_def by blast

lemma snoc_prefix_eq:
  assumes "prefix (f @ [c]) (g @ [c])" "c \<notin> set g"
  shows "f = g"
proof -
  from assms(1) obtain z where z: "g @ [c] = (f @ [c]) @ z" by (auto elim: prefixE)
  show ?thesis
  proof (cases z rule: rev_cases)
    case Nil
    with z show ?thesis by simp
  next
    case (snoc z' c')
    with z have "g = f @ [c] @ z'" by simp
    with assms(2) show ?thesis by simp
  qed
qed

lemma about_unique:
  assumes "about f i e" "about g i e" "CHR '' '' \<notin> set f" "CHR '' '' \<notin> set g"
  shows "f = g"
proof -
  let ?P = "''Record '' @ str_int i @ '': ''"
  have a: "prefix (?P @ f @ '' '') e" "prefix (?P @ g @ '' '') e"
    using assms(1,2) by (simp_all add: about_def rec_msg_def)
  then have "prefix (?P @ f @ '' '') (?P @ g @ '' '') \<or> prefix (?P @ g @ '' '') (?P @ f @ '' '')"
    by (rule prefix_same_cases)
  then have "prefix (f @ '' '') (g @ '' '') \<or> prefix (g @ '' '') (f @ '' '')"
    by simp
  then show ?thesis
    using snoc_prefix_eq[of f "CHR '' ''" g, OF _ assms(4)]
      snoc_prefix_eq[of g "CHR '' ''" f, OF _ assms(3)]
    by blast
qed

lemma optional_no_space: "g \<in> set optional_fields \<Longrightarrow> CHR '' '' \<notin> set g"
  unfolding optional_fields_def by auto

lemma about_rec_msg: "about f i (rec_msg i s) \<longleftrightarrow> prefix (f @ '' '') s"
  by (simp add: about_def rec_msg_def)

lemma required_not_about:
  assumes "f \<in> set optional_fields"
  shows "\<not> about f i (rec_msg i ''userId is required'')"
    and "\<not> about f i (rec_msg i ''deviceId is required'')"
    and "\<not> about f i (rec_msg i ''invalid timestamp (must be positive)'')"
    and "\<not> about f i (rec_msg i ''recordHash is required for deduplication'')"
  using assms unfolding optional_fields_def about_rec_msg by auto

lemma check_timestamp_msgs:
  assumes "check_timestamp m i = Inr es" "e \<in> set es"
  shows "e = rec_msg i ''invalid timestamp (must be positive)''"
proof (cases "m ''timestamp''")
  case None
  with assms show ?thesis by (auto simp: check_timestamp_def)
next
  case (Some v)
  with assms show ?thesis
    by (cases v; cases "num_val v") (auto simp: check_timestamp_def split: if_splits)
qed

lemma optional_not_required:
  assumes "f \<in> set optional_fields"
  shows "f \<noteq> ''userId''" "f \<noteq> ''deviceId''" "f \<noteq> ''timestamp''" "f \<noteq> ''recordHash''"
  using assms unfolding optional_fields_def by auto

lemma optional_checks_null:
  assumes "m f = Some PNone" "f \<noteq> ''isWearing''"
  shows "optional_checks (m(f := None)) i = optional_checks m i"
proof -
  have "chk (m(f := None)) i g = chk m i g" if "(g, chk) \<in> set block_table" for g chk
  proof (cases "g = f")
    case True
    then have "chk (m(f := None)) i g = []" "chk m i g = []"
      using table_absent[OF that, of "m(f := None)" i] table_null[OF that, of m i] assms
      by simp_all
    then show ?thesis by simp
  next
    case False
    then show ?thesis by (intro table_cong[OF that]) simp
  qed
  then show ?thesis
    unfolding optional_checks_table by (intro arg_cong[where f=concat] map_cong) auto
qed

lemma optional_checks_about:
  assumes "e \<in> set (optional_checks m i)"
  obtains g chk where "(g, chk) \<in> set block_table" "e \<in> set (chk m i g)" "about g i e"
proof -
  from assms obtain g chk where gc: "(g, chk) \<in> set block_table" "e \<in> set (chk m i g)"
    unfolding optional_checks_table by auto
  then have "about g i e" by (rule table_about)
  with gc that show thesis by blast
qed

lemma null_field_skipped:
  assumes "f \<in> set optional_fields" and "f \<noteq> ''isWearing''" and "m f = Some PNone"
  shows "validate_metric m i = validate_metric (m(f := None)) i
       \<and> (\<forall>errs. validate_metric m i = Inr errs \<longrightarrow> (\<forall>e\<in>set errs. \<not> about f i e))"
proof
  let ?m' = "m(f := None)"
  note nr = optional_not_required[OF assms(1)]
  have t: "check_timestamp ?m' i = check_timestamp m i"
    using nr by (simp add: check_timestamp_def)
  have g: "falsy_get ?m' ''userId'' = falsy_get m ''userId''"
    "falsy_get ?m' ''deviceId'' = falsy_get m ''deviceId''"
    "falsy_get ?m' ''recordHash'' = falsy_get m ''recordHash''"
    using nr by (simp_all add: falsy_get_def)
  have o: "optional_checks ?m' i = optional_checks m i"
    using assms(3,2) by (rule optional_checks_null)
  show "validate_metric m i = validate_metric ?m' i"
    unfolding validate_metric_def t g o ..
next
  show "\<forall>errs. validate_metric m i = Inr errs \<longrightarrow> (\<forall>e\<in>set errs. \<not> about f i e)"
  proof (intro allI impI ballI)
    fix errs e
    assume v: "validate_metric m i = Inr errs" and e: "e \<in> set errs"
    define e1 where "e1 = (if falsy_get m ''userId'' then [rec_msg i ''userId is required''] else [])"
    define e2 where "e2 = (if falsy_get m ''deviceId'' then [rec_msg i ''deviceId is required''] else [])"
    define e4 where "e4 = (if falsy_get m ''recordHash''
                     then [rec_msg i ''recordHash is required for deduplication''] else [])"
    obtain e3 where e3: "check_timestamp m i = Inr e3"
      and errs: "errs = e1 @ e2 @ e3 @ e4 @ optional_checks m i"
      using v unfolding validate_metric_def Let_def e1_def e2_def e4_def
      by (cases "check_timestamp m i") simp_all
    from e errs consider "e \<in> set e1" | "e \<in> set e2" | "e \<in> set e3" | "e \<in> set e4"
      | "e \<in> set (optional_checks m i)"
      by auto
    then show "\<not> about f i e"
    proof cases
      case 1
      then have "e = rec_msg i ''userId is required''"
        by (simp add: e1_def split: if_splits)
      then show ?thesis using required_not_about(1)[OF assms(1)] by simp
    next
      case 2
      then have "e = rec_msg i ''deviceId is required''"
        by (simp add: e2_def split: if_splits)
      then show ?thesis using required_not_about(2)[OF assms(1)] by simp
    next
      case 3
      with e3 have "e = rec_msg i ''invalid timestamp (must be positive)''"
        by (rule check_timestamp_msgs)
      then show ?thesis using required_not_about(3)[OF assms(1)] by simp
    next
      case 4
      then have "e = rec_msg i ''recordHash is required for deduplication''"
        by (simp add: e4_def split: if_splits)
      then show ?thesis using required_not_about(4)[OF assms(1)] by simp
    next
      case 5
      then obtain g chk where gc: "(g, chk) \<in> set block_table" "e \<in> set (chk m i g)" "about g i e"
        by (rule optional_checks_about)
      from gc(1) have g: "g \<in> set optional_fields"
        unfolding table_fields[symmetric] by force
      show ?thesis
      proof
        assume "about f i e"
        then have "f = g"
          using gc(3) optional_no_space[OF assms(1)] optional_no_space[OF g] by (rule about_unique)
        with table_null[OF gc(1), of m i] assms have "chk m i g = []" by simp
        with gc(2) show False by simp
      qed
    qed
  qed
qed

lemma null_wearing_violation:
  assumes "m ''isWearing'' = Some PNone" "validate_metric m i = Inr errs"
  shows "rec_msg i ''isWearing must be boolean'' \<in> set errs"
proof -
  have "rec_msg i ''isWearing must be boolean'' \<in> set (optional_checks m i)"
    using assms(1) by (simp add: optional_checks_def check_wearing_def)
  moreover obtain es where "errs = es @ optional_checks m i"
    using assms(2) unfolding validate_metric_def Let_def
    by (cases "check_timestamp m i") (auto simp del: append_assoc simp add: append_assoc[symmetric])
  ultimately show ?thesis by simp
qed

text \<open>Claim C9, as the code has it: an optional field other than isWearing that is present
  with the value null is not checked: the validator answers exactly as if the key were
  absent, and no violation it reports is about that field. isWearing is checked whenever
  its key is present: with the value null the validator reports
  "Record i: isWearing must be boolean".\<close>

theorem null_optional_field_not_checked:
  "(f \<in> set optional_fields \<and> f \<noteq> ''isWearing'' \<and> m f = Some PNone \<longrightarrow>
      validate_metric m i = validate_metric (m(f := None)) i
      \<and> (\<forall>errs. validate_metric m i = Inr errs \<longrightarrow> (\<forall>e\<in>set errs. \<not> about f i e)))
   \<and> (w ''isWearing'' = Some PNone \<and> validate_metric w i = Inr errs \<longrightarrow>
        rec_msg i ''isWearing must be boolean'' \<in> set errs)"
  using null_field_skipped[of f m i] null_wearing_violation[of w i errs] by blast

lemma null_wearing_example:
  "validate_metric (map_of ((''isWearing'', PNone) # valid_rec)) 0
     = Inr [''Record 0: isWearing must be boolean'']"
  by code_simp

text \<open>The property at a record whose steps are null and whose heart rate is out of range,
  and at one whose isWearing is null.\<close>

lemma null_steps_example:
  "validate_metric (map_of ((''steps'', PNone) # (''heartRate'', PInt 500) # valid_rec)) 0
     = Inr [''Record 0: heartRate out of range (30-220 bpm)'']"
  by code_simp

theorem null_optional_field_not_checked_witness:
  "validate_metric (map_of ((''steps'', PNone) # (''heartRate'', PInt 500) # valid_rec)) 0
     = Inr [''Record 0: heartRate out of range (30-220 bpm)'']
   \<and> validate_metric
        ((map_of ((''steps'', PNone) # (''heartRate'', PInt 500) # valid_rec))(''steps'' := None)) 0
     = Inr [''Record 0: heartRate out of range (30-220 bpm)'']
   \<and> \<not> about ''steps'' 0 ''Record 0: heartRate out of range (30-220 bpm)''
   \<and> rec_msg 0 ''isWearing must be boolean'' \<in> set [''Record 0: isWearing must be boolean'']"
  using null_optional_field_not_checked[of "''steps''"
      "map_of ((''steps'', PNone) # (''heartRate'', PInt 500) # valid_rec)" 0
      "map_of ((''isWearing'', PNone) # valid_rec)" "[''Record 0: isWearing must be boolean'']"]
    null_wearing_example null_steps_example
  by (simp add: optional_fields_def)

text \<open>Claim C9 as stated fails for isWearing: a record with the four required fields and
  isWearing null is reported as a violation, although the field is optional and null.\<close>

theorem null_wearing_is_a_violation:
  "validate_metric
     (map_of [(''userId'', PStr ''u1''), (''deviceId'', PStr ''d1''),
              (''timestamp'', PInt 1704067200000), (''recordHash'', PStr ''h1''),
              (''isWearing'', PNone)]) 0
   = Inr [''Record 0: isWearing must be boolean'']"
  by code_simp

end
